theory Spec2Isabelle
  imports Complex_Main "HOL-Library.Sublist"
begin

section \<open>Shared JavaScript primitives\<close>

text \<open>
  JavaScript strings are modelled as \<^typ>\<open>string\<close>: a list of 8-bit code units, which
  covers the Latin-1 range of a JavaScript string. Exceptions are values of \<open>error\<close>;
  a function that can throw returns \<open>error + 'a\<close> with \<open>Inl\<close> for the exception.
\<close>

datatype error = TypeError string

text \<open>\<open>String.prototype.replace\<close> with a string pattern: only the first occurrence
  is replaced.\<close>

fun replace_first :: "string \<Rightarrow> string \<Rightarrow> string \<Rightarrow> string" where
  "replace_first pat rep [] = (if pat = [] then rep else [])"
| "replace_first pat rep (c # cs) =
     (if prefix pat (c # cs) then rep @ drop (length pat) (c # cs)
      else c # replace_first pat rep cs)"

text \<open>\<open>Number.prototype.toString\<close> on a non-negative integer below \<open>10^21\<close>.\<close>

definition digit_char :: "nat \<Rightarrow> char" where
  "digit_char d = char_of (48 + d)"

function nat_toString :: "nat \<Rightarrow> string" where
  "nat_toString n =
     (if n < 10 then [digit_char n] else nat_toString (n div 10) @ [digit_char (n mod 10)])"
  by pat_completeness auto
termination
  by (relation "measure id") auto

declare nat_toString.simps [simp del]

text \<open>A regular expression that is a plain literal, as in \<open>/application\/json/\<close>, matches
  when the literal occurs somewhere in the subject.\<close>

fun contains_literal :: "string \<Rightarrow> string \<Rightarrow> bool" where
  "contains_literal pat [] = (pat = [])"
| "contains_literal pat (c # cs) = (prefix pat (c # cs) \<or> contains_literal pat cs)"


section \<open>Users (models/user.js)\<close>

record user =
  UserId :: nat
  Email :: string
  ApiToken :: "string option"

type_synonym userdb = "nat \<Rightarrow> user option"

text \<open>Modelled from the spec: \<open>models/user.js\<close> is not part of the sources. The members
  database is a relational table keyed by id; \<open>User.update\<close> sets the given column on
  the row with that id (no row, no change) and \<open>User.get\<close> reads the row back.\<close>

definition User_update :: "nat \<Rightarrow> string \<Rightarrow> userdb \<Rightarrow> userdb" where
  "User_update uid tok db =
     (case db uid of None \<Rightarrow> db | Some u \<Rightarrow> db(uid \<mapsto> u\<lparr>ApiToken := Some tok\<rparr>))"

definition User_get :: "nat \<Rightarrow> userdb \<Rightarrow> user option" where
  "User_get uid db = db uid"


section \<open>Routing for ajax calls: the relay to the api app\<close>

subsection \<open>base64Encode\<close>

definition b64_alphabet :: string where
  "b64_alphabet = ''ABCDEFGHIJKLMNOPQRSTUVWXYZabcdefghijklmnopqrstuvwxyz0123456789+/''"

definition b64_char :: "nat \<Rightarrow> char" where
  "b64_char n = b64_alphabet ! (n mod 64)"

text \<open>\<open>Buffer.toString('base64')\<close>: three octets give four characters, with \<open>=\<close>
  padding for a final group of one or two octets.\<close>

fun b64_octets :: "nat list \<Rightarrow> string" where
  "b64_octets (a # b # c # r) =
     [b64_char (a div 4), b64_char ((a mod 4) * 16 + b div 16),
      b64_char ((b mod 16) * 4 + c div 64), b64_char (c mod 64)] @ b64_octets r"
| "b64_octets [a, b] =
     [b64_char (a div 4), b64_char ((a mod 4) * 16 + b div 16),
      b64_char ((b mod 16) * 4), CHR ''='']"
| "b64_octets [a] = [b64_char (a div 4), b64_char ((a mod 4) * 16), CHR ''='', CHR ''='']"
| "b64_octets [] = []"

text \<open>\<open>new Buffer(str, 'binary')\<close> keeps the low eight bits of every code unit.\<close>

definition base64Encode :: "string \<Rightarrow> string" where
  "base64Encode str = b64_octets (map (\<lambda>c. of_char c mod 256) str)"

subsection \<open>The handler\<close>

record fetch_request =
  req_url :: string
  req_method :: string
  req_body :: "string option"
  req_content_type :: string
  req_accept :: "string option"
  req_authorization :: string

text \<open>What \<open>fetch\<close> resolves to: the status, the content-type header (absent is \<open>None\<close>),
  and what \<open>response.json()\<close> and \<open>response.text()\<close> give; \<open>response.json()\<close>
  rejects with a message when the payload is not JSON.\<close>

record 'j fetch_response =
  resp_status :: nat
  resp_content_type :: "string option"
  resp_json :: "string + 'j"
  resp_text :: string

datatype 'j fetch_outcome = Rejected string | Resolved "'j fetch_response"

datatype 'j reply_body = NoBody | TextBody string | JsonBody 'j

text \<open>The library functions the handler calls. \<open>Date.parse\<close> gives \<open>None\<close> for
  \<open>NaN\<close>; \<open>JSON.stringify\<close> gives \<open>None\<close> for \<open>undefined\<close>.\<close>

record ('b, 'j) libs =
  Date_parse :: "string \<Rightarrow> int option"
  toISOString :: "int \<Rightarrow> string"
  JSON_stringify :: "'b \<Rightarrow> string option"
  sha1_hex :: "string \<Rightarrow> string"
  fetch :: "fetch_request \<Rightarrow> 'j fetch_outcome"

record ('b, 'j) ajax_ctx =
  passport_user :: user
  captures0 :: string
  host :: string
  protocol :: string
  ctx_method :: string
  header_accept :: "string option"
  request_body :: 'b
  status :: nat
  body :: "'j reply_body"

text \<open>The calls the handler makes to the outside, in the order it makes them.\<close>

datatype event = DbUpdate nat string | Fetch fetch_request

record ('b, 'j) ajax_state =
  db :: userdb
  ctx :: "('b, 'j) ajax_ctx"
  trace :: "event list"

text \<open>Lines 38 to 42: renew the api token when it has expired. \<open>now\<close> is what
  \<open>Date.now()\<close> returns and \<open>now'\<close> what \<open>new Date()\<close> reads one line later. A
  \<open>NaN\<close> from \<open>Date.parse\<close> makes the comparison false. Reading \<open>UserId\<close> of the
  \<open>null\<close> that \<open>User.get\<close> gives for a missing row throws later, so the re-read user is
  kept as an option here.\<close>

definition getAjax_renew ::
  "('b, 'j) libs \<Rightarrow> int \<Rightarrow> int \<Rightarrow> ('b, 'j) ajax_state \<Rightarrow> ('b, 'j) ajax_state \<times> user option" where
  "getAjax_renew L now now' s =
     (let usr = passport_user (ctx s) in
      if (case ApiToken usr of
            None \<Rightarrow> True
          | Some tok \<Rightarrow>
              (case Date_parse L tok of
                 None \<Rightarrow> False
               | Some t \<Rightarrow> now - t > 1000 * 60 * 60 * 24))
      then
        (let tok = toISOString L now';
             db' = User_update (UserId usr) tok (db s)
         in (s\<lparr>db := db', trace := trace s @ [DbUpdate (UserId usr) tok]\<rparr>,
             User_get (UserId usr) db'))
      else (s, Some usr))"

text \<open>Lines 44 to 55: the request sent to the api host.\<close>

definition getAjax_request ::
  "('b, 'j) libs \<Rightarrow> ('b, 'j) ajax_ctx \<Rightarrow> user \<Rightarrow> string \<Rightarrow> fetch_request" where
  "getAjax_request L c u token =
     (let resource = captures0 c;
          host' = replace_first ''admin'' ''api'' (host c);
          url = protocol c @ ''://'' @ host' @ ''/'' @ resource;
          body' = (if JSON_stringify L (request_body c) = Some ''{}'' then Some ''''
                   else JSON_stringify L (request_body c));
          usr = nat_toString (UserId u);
          pass = sha1_hex L token
      in \<lparr>req_url = url, req_method = ctx_method c, req_body = body',
          req_content_type = ''application/json'', req_accept = header_accept c,
          req_authorization = ''Basic '' @ base64Encode (usr @ '':'' @ pass)\<rparr>)"

text \<open>Lines 57 to 65: the call and the \<open>try\<close>/\<open>catch\<close> around it. The status is
  assigned before the payload is read, and the \<open>catch\<close> overwrites both.\<close>

definition match_null_message :: string where
  "match_null_message = ''Cannot read property 'match' of null''"

definition getAjax_fetch ::
  "('b, 'j) libs \<Rightarrow> fetch_request \<Rightarrow> ('b, 'j) ajax_ctx \<Rightarrow> ('b, 'j) ajax_ctx" where
  "getAjax_fetch L rq c =
     (case fetch L rq of
        Rejected msg \<Rightarrow> c\<lparr>status := 500, body := TextBody msg\<rparr>
      | Resolved r \<Rightarrow>
          (case resp_content_type r of
             None \<Rightarrow> c\<lparr>status := 500, body := TextBody match_null_message\<rparr>
           | Some ct \<Rightarrow>
               if contains_literal ''application/json'' ct
               then (case resp_json r of
                       Inl msg \<Rightarrow> c\<lparr>status := 500, body := TextBody msg\<rparr>
                     | Inr j \<Rightarrow> c\<lparr>status := resp_status r, body := JsonBody j\<rparr>)
               else c\<lparr>status := resp_status r, body := TextBody (resp_text r)\<rparr>))"

definition getAjax ::
  "('b, 'j) libs \<Rightarrow> int \<Rightarrow> int \<Rightarrow> ('b, 'j) ajax_state \<Rightarrow> error + ('b, 'j) ajax_state" where
  "getAjax L now now' s =
     (case getAjax_renew L now now' s of
        (s1, None) \<Rightarrow> Inl (TypeError ''Cannot read property 'UserId' of null'')
      | (s1, Some u) \<Rightarrow>
          (case ApiToken u of
             None \<Rightarrow> Inl (TypeError ''Data must be a string or a buffer'')
           | Some token \<Rightarrow>
               (let c1 = (ctx s1)\<lparr>passport_user := u\<rparr>;
                    rq = getAjax_request L c1 u token
                in Inr (s1\<lparr>ctx := getAjax_fetch L rq c1, trace := trace s1 @ [Fetch rq]\<rparr>))))"


section \<open>The www app (app-www.js)\<close>

subsection \<open>Values, errors and the context\<close>

datatype jsval =
    JUndefined
  | JNull
  | JBool bool
  | JNum int
  | JStr string
  | JObj "(string \<times> jsval) list"
  | JArr "jsval list"







subsection \<open>String.prototype.trim\<close>

text \<open>White space and line terminators within the 8-bit range: tab, line feed, vertical
  tab, form feed, carriage return, space and no-break space.\<close>

definition is_ws :: "char \<Rightarrow> bool" where
  "is_ws ch = (of_char ch \<in> {9, 10, 11, 12, 13, 32, 160 :: nat})"

definition trim :: "string \<Rightarrow> string" where
  "trim str = rev (dropWhile is_ws (rev (dropWhile is_ws str)))"

subsection \<open>The middleware written in app-www.js\<close>






definition has_key :: "string \<Rightarrow> (string \<times> jsval) list \<Rightarrow> bool" where
  "has_key k kvs = (k \<in> set (map fst kvs))"

definition set_key :: "string \<Rightarrow> jsval \<Rightarrow> (string \<times> jsval) list \<Rightarrow> (string \<times> jsval) list" where
  "set_key k v kvs = map (\<lambda>(k', v'). if k' = k then (k', v) else (k', v')) kvs"





subsection \<open>The middleware taken from libraries\<close>



subsection \<open>The chain\<close>







section \<open>Dev tools handlers (app-admin/handlers/dev.js)\<close>

subsection \<open>Library functions\<close>



subsection \<open>Regular expressions\<close>







subsection \<open>The log viewers\<close>
















section \<open>Sending e-mail (lib/mail.js)\<close>

subsection \<open>Strings and objects\<close>

text \<open>\<open>String.prototype.split\<close> with a one-character separator: the empty string
  gives one empty piece.\<close>

fun split_on :: "char \<Rightarrow> string \<Rightarrow> string list" where
  "split_on sep [] = [[]]"
| "split_on sep (ch # cs) =
     (if ch = sep then [] # split_on sep cs
      else (case split_on sep cs of
              [] \<Rightarrow> [[ch]]
            | piece # pieces \<Rightarrow> (ch # piece) # pieces))"

text \<open>An object is a list of properties in insertion order. Reading a missing property
  gives \<open>undefined\<close>; writing keeps the place of an existing property and appends a
  new one.\<close>

definition obj_get :: "string \<Rightarrow> (string \<times> jsval) list \<Rightarrow> jsval" where
  "obj_get k kvs = (case map_of kvs k of None \<Rightarrow> JUndefined | Some v \<Rightarrow> v)"

definition obj_set :: "string \<Rightarrow> jsval \<Rightarrow> (string \<times> jsval) list \<Rightarrow> (string \<times> jsval) list" where
  "obj_set k v kvs = (if has_key k kvs then set_key k v kvs else kvs @ [(k, v)])"

definition truthy_val :: "jsval \<Rightarrow> bool" where
  "truthy_val v =
     (case v of
        JUndefined \<Rightarrow> False
      | JNull \<Rightarrow> False
      | JBool b \<Rightarrow> b
      | JNum n \<Rightarrow> n \<noteq> 0
      | JStr str \<Rightarrow> str \<noteq> []
      | _ \<Rightarrow> True)"

text \<open>\<open>v == n\<close> for a number \<open>n\<close>: a string is converted to a number, an object
  converts to a string that is not a number.\<close>

definition loose_eq_num :: "(string \<Rightarrow> rat option) \<Rightarrow> jsval \<Rightarrow> int \<Rightarrow> bool" where
  "loose_eq_num toNumber v n =
     (case v of
        JNum m \<Rightarrow> m = n
      | JStr str \<Rightarrow> toNumber str = Some (of_int n)
      | JBool b \<Rightarrow> (if b then 1 else 0) = n
      | _ \<Rightarrow> False)"

fun reduce_err :: "('a \<Rightarrow> 'b \<Rightarrow> error + 'a) \<Rightarrow> 'b list \<Rightarrow> 'a \<Rightarrow> error + 'a" where
  "reduce_err f [] acc = Inr acc"
| "reduce_err f (x # xs) acc =
     (case f acc x of Inl e \<Rightarrow> Inl e | Inr acc' \<Rightarrow> reduce_err f xs acc')"

subsection \<open>Mail.transporter\<close>

text \<open>The callback of \<open>reduce\<close>, lines 40 to 48. \<open>keyVal\<close> is what \<open>split('=')\<close> gave:
  its first piece is the key, its second the value (\<open>undefined\<close> when there is none),
  and further pieces are dropped by the destructuring. The module is an ES module, hence
  strict: creating a property on a string throws. (The values of \<open>config\<close> are
  \<open>undefined\<close>, strings and objects only; a property set on an array would not show.)\<close>

definition smtp_step :: "(string \<times> jsval) list \<Rightarrow> string list \<Rightarrow> error + (string \<times> jsval) list" where
  "smtp_step config keyVal =
     (case keyVal of
        [] \<Rightarrow> Inl (TypeError ''Cannot read property 'split' of undefined'')
      | key # rest \<Rightarrow>
          (let val = (case rest of [] \<Rightarrow> JUndefined | v # _ \<Rightarrow> JStr v);
               keyParts = split_on CHR ''.'' key;
               k0 = hd keyParts;
               config1 = (if length keyParts > 1
                          then obj_set k0 (if truthy_val (obj_get k0 config)
                                           then obj_get k0 config else JObj []) config
                          else config)
           in if length keyParts = 1 then Inr (obj_set k0 val config1)
              else (case obj_get k0 config1 of
                      JObj inner \<Rightarrow>
                        Inr (obj_set k0 (JObj (obj_set (keyParts ! 1) val inner)) config1)
                    | JArr vs \<Rightarrow> Inr config1
                    | _ \<Rightarrow> Inl (TypeError ''Cannot create property on primitive value''))))"

text \<open>Lines 38 to 49: from the connection string to the object given to
  \<open>nodemailer.createTransport\<close>. \<open>conn\<close> is \<open>process.env.SMTP_CONNECTION\<close>.\<close>

definition smtpConfig ::
  "(string \<Rightarrow> rat option) \<Rightarrow> string option \<Rightarrow> error + (string \<times> jsval) list" where
  "smtpConfig toNumber conn =
     (case conn of
        None \<Rightarrow> Inl (TypeError ''Cannot read property 'split' of undefined'')
      | Some str \<Rightarrow>
          (let smtpKeyVal = map (\<lambda>v. split_on CHR ''='' (trim v)) (split_on CHR '';'' str)
           in case reduce_err smtp_step smtpKeyVal [] of
                Inl e \<Rightarrow> Inl e
              | Inr config \<Rightarrow>
                  Inr (if truthy_val (obj_get ''port'' config)
                       then obj_set ''secure''
                              (JBool (loose_eq_num toNumber (obj_get ''port'' config) 465)) config
                       else config)))"

text \<open>The state of the module and of the mail server: the transport, created on first
  use and identified with the object it was created from, and the messages handed to
  \<open>sendMail\<close>.\<close>

record message =
  msg_to :: string
  msg_from :: string
  msg_subject :: string
  msg_html :: "string option"
  msg_text :: string
  msg_headers :: "(string \<times> string) list"

record mail_state =
  transport :: "(string \<times> jsval) list option"
  outbox :: "message list"

definition Mail_transporter ::
  "(string \<Rightarrow> rat option) \<Rightarrow> string option \<Rightarrow> mail_state
     \<Rightarrow> error + ((string \<times> jsval) list \<times> mail_state)" where
  "Mail_transporter toNumber conn s =
     (case transport s of
        Some t \<Rightarrow> Inr (t, s)
      | None \<Rightarrow>
          (case smtpConfig toNumber conn of
             Inl e \<Rightarrow> Inl e
           | Inr config \<Rightarrow> Inr (config, s\<lparr>transport := Some config\<rparr>)))"

subsection \<open>Mail.send, Mail.sendHtml, Mail.sendText\<close>

definition Mail_from :: string where
  "Mail_from = ''noreply@movable-type.co.uk''"

text \<open>The libraries of \<open>Mail.send\<close>: the template file read and filled in by handlebars,
  the text of the \<open>title\<close> element of a document (\<open>None\<close> when there is none, and
  reading \<open>textContent\<close> of \<open>null\<close> throws), and the conversion of html to text.\<close>

record 'c mail_libs =
  render_template :: "string \<Rightarrow> 'c \<Rightarrow> string"
  title_text :: "string \<Rightarrow> string option"
  htmlToText :: "string \<Rightarrow> string"
  to_number :: "string \<Rightarrow> rat option"

text \<open>The part of the Koa context and of the process the functions read: \<open>ctx.app.env\<close>,
  the id of \<open>ctx.state.user\<close> (\<open>None\<close> when nobody is logged in), \<open>global.it\<close>, and
  the connection string.\<close>

record mail_ctx =
  ctx_app_env :: string
  ctx_state_user :: "nat option"
  global_it :: bool
  SMTP_CONNECTION :: "string option"

text \<open>\<open>Mail.transporter.sendMail(message)\<close>: the getter runs first.\<close>

definition sendMail ::
  "(string \<Rightarrow> rat option) \<Rightarrow> mail_ctx \<Rightarrow> message \<Rightarrow> mail_state \<Rightarrow> error + mail_state" where
  "sendMail toNumber c m s =
     (case Mail_transporter toNumber (SMTP_CONNECTION c) s of
        Inl e \<Rightarrow> Inl e
      | Inr (t, s') \<Rightarrow> Inr (s'\<lparr>outbox := outbox s' @ [m]\<rparr>))"

text \<open>The lines the three functions share, from the comment \<open>don't send e-mail to live
  indicated recipient in dev/staging\<close> to \<open>sendMail\<close>.\<close>

definition dispatch ::
  "(string \<Rightarrow> rat option) \<Rightarrow> userdb \<Rightarrow> mail_ctx \<Rightarrow> string \<Rightarrow> message \<Rightarrow> mail_state
     \<Rightarrow> error + mail_state" where
  "dispatch toNumber users c to message s =
     (if ctx_app_env c \<noteq> ''production'' \<and> ctx_state_user c = None then Inr s
      else if ctx_app_env c \<noteq> ''production''
      then (case User_get (the (ctx_state_user c)) users of
              None \<Rightarrow> Inl (TypeError ''Cannot read property 'Email' of null'')
            | Some currentUser \<Rightarrow>
                sendMail toNumber c
                  (message\<lparr>msg_to := Email currentUser,
                           msg_headers := [(''X-Orig-To'', to)]\<rparr>) s)
      else sendMail toNumber c message s)"

definition Mail_send ::
  "'c mail_libs \<Rightarrow> userdb \<Rightarrow> string \<Rightarrow> string \<Rightarrow> 'c \<Rightarrow> mail_ctx \<Rightarrow> mail_state
     \<Rightarrow> error + mail_state" where
  "Mail_send L users to template context c s =
     (if global_it c then Inr s
      else
        (let html = render_template L template context
         in case title_text L html of
              None \<Rightarrow> Inl (TypeError ''Cannot read property 'textContent' of null'')
            | Some subject \<Rightarrow>
                dispatch (to_number L) users c to
                  \<lparr>msg_to = to, msg_from = Mail_from, msg_subject = subject,
                   msg_html = Some html, msg_text = htmlToText L html, msg_headers = []\<rparr> s))"

definition Mail_sendHtml ::
  "'c mail_libs \<Rightarrow> userdb \<Rightarrow> string \<Rightarrow> string \<Rightarrow> string \<Rightarrow> mail_ctx \<Rightarrow> mail_state
     \<Rightarrow> error + mail_state" where
  "Mail_sendHtml L users to subject html c s =
     (if global_it c then Inr s
      else dispatch (to_number L) users c to
             \<lparr>msg_to = to, msg_from = Mail_from, msg_subject = subject,
              msg_html = Some html, msg_text = htmlToText L html, msg_headers = []\<rparr> s)"

definition Mail_sendText ::
  "'c mail_libs \<Rightarrow> userdb \<Rightarrow> string \<Rightarrow> string \<Rightarrow> string \<Rightarrow> mail_ctx \<Rightarrow> mail_state
     \<Rightarrow> error + mail_state" where
  "Mail_sendText L users to subject text c s =
     (if global_it c then Inr s
      else dispatch (to_number L) users c to
             \<lparr>msg_to = to, msg_from = Mail_from, msg_subject = subject,
              msg_html = None, msg_text = text, msg_headers = []\<rparr> s)"


subsection \<open>The configuration as the specification words it\<close>

text \<open>A second definition of the configuration, following the words of the
  specification rather than the code: the connection string is a list of key=value
  pairs, a key is undotted or of the form \<open>a.b\<close>.\<close>

datatype smtp_key = Undotted string | Dotted string string

fun render_key :: "smtp_key \<Rightarrow> string" where
  "render_key (Undotted k) = k"
| "render_key (Dotted a b) = a @ ''.'' @ b"

text \<open>The parts of a key hold neither a dot nor an equals sign.\<close>

fun wf_key :: "smtp_key \<Rightarrow> bool" where
  "wf_key (Undotted k) = (CHR ''.'' \<notin> set k \<and> CHR ''='' \<notin> set k)"
| "wf_key (Dotted a b) =
     (CHR ''.'' \<notin> set a \<and> CHR ''='' \<notin> set a \<and> CHR ''.'' \<notin> set b \<and> CHR ''='' \<notin> set b)"







section \<open>The api app, members resource\<close>

text \<open>
  The handlers of the api app are not part of the sources; \<open>test/api.js\<close> and
  \<open>app-api/routes-root.js\<close> are. Every definition of this section is a model of the
  missing handlers, written from the specification (REST-ish endpoints \<open>/auth\<close> and
  \<open>/members\<close>, uniqueness constraints of the database, the conventional status codes
  200, 201, 204, 401, 404 and 409) and from the note of the root resource on
  authentication. The teams endpoints are left out.
\<close>

record member =
  Firstname :: string
  Lastname :: string
  member_Email :: string
  Active :: bool

record api_user =
  au_id :: nat
  au_email :: string
  au_password :: string
  au_token :: "string option"

text \<open>Modelled from the spec: the relational members table with its unique \<open>Email\<close>
  (rows carry their \<open>MemberId\<close>, ids are handed out in increasing order) and the users
  who may authenticate.\<close>

record api_db =
  api_users :: "api_user list"
  api_members :: "(nat \<times> member) list"
  api_next_id :: nat

datatype http_method = GET | POST | PATCH | DELETE

datatype resource = Root | Auth | Members | Member_by_id nat | No_such_resource

record api_request =
  rq_method :: http_method
  rq_path :: string
  rq_firstname :: "string option"
  rq_auth :: "(string \<times> string) option"
  rq_values :: member

datatype api_body =
    No_content
  | Resources "(string \<times> string) list" string string
  | Auth_details nat string
  | One_member nat member
  | Member_list "(nat \<times> member) list"
  | Message string

record api_response =
  rs_status :: nat
  rs_location :: "string option"
  rs_body :: api_body

text \<open>Modelled from the spec: a decimal id in a path.\<close>

fun digits_value :: "nat \<Rightarrow> string \<Rightarrow> nat option" where
  "digits_value acc [] = Some acc"
| "digits_value acc (ch # cs) =
     (if (48 :: nat) \<le> of_char ch \<and> of_char ch \<le> (57 :: nat)
      then digits_value (acc * 10 + (of_char ch - 48)) cs
      else None)"

text \<open>Modelled from the spec: the resources \<open>/\<close>, \<open>/auth\<close>, \<open>/members\<close> and
  \<open>/members/:id\<close>; every other path names no resource.\<close>

definition route :: "string \<Rightarrow> resource" where
  "route path =
     (case split_on CHR ''/'' path of
        [a, b] \<Rightarrow>
          if a = [] \<and> b = [] then Root
          else if a = [] \<and> b = ''auth'' then Auth
          else if a = [] \<and> b = ''members'' then Members
          else No_such_resource
      | [a, b, c] \<Rightarrow>
          if a = [] \<and> b = ''members'' \<and> c \<noteq> []
          then (case digits_value 0 c of
                  Some n \<Rightarrow> Member_by_id n
                | None \<Rightarrow> No_such_resource)
          else No_such_resource
      | _ \<Rightarrow> No_such_resource)"

text \<open>Modelled from the spec: \<open>GET /auth\<close> takes e-mail and password, every other
  request takes the id and the token that \<open>GET /auth\<close> gave.\<close>

definition login :: "api_db \<Rightarrow> (string \<times> string) option \<Rightarrow> api_user option" where
  "login d cred =
     (case cred of
        None \<Rightarrow> None
      | Some (name, pass) \<Rightarrow>
          find (\<lambda>u. au_email u = name \<and> au_password u = pass) (api_users d))"

definition authenticated :: "api_db \<Rightarrow> (string \<times> string) option \<Rightarrow> bool" where
  "authenticated d cred =
     (case cred of
        None \<Rightarrow> False
      | Some (name, pass) \<Rightarrow>
          list_ex (\<lambda>u. nat_toString (au_id u) = name \<and> au_token u = Some pass) (api_users d))"

definition respond :: "nat \<Rightarrow> api_body \<Rightarrow> api_response" where
  "respond code b = \<lparr>rs_status = code, rs_location = None, rs_body = b\<rparr>"

text \<open>Modelled from the spec: \<open>GET /auth\<close> issues a token (\<open>fresh\<close>) and returns it
  with the id; 401 on missing or wrong credentials.\<close>

definition get_auth :: "string \<Rightarrow> api_db \<Rightarrow> api_request \<Rightarrow> api_db \<times> api_response" where
  "get_auth fresh d rq =
     (case login d (rq_auth rq) of
        None \<Rightarrow> (d, respond 401 (Message ''Unauthorized''))
      | Some u \<Rightarrow>
          (d\<lparr>api_users := map (\<lambda>u'. if au_id u' = au_id u then u'\<lparr>au_token := Some fresh\<rparr>
                                      else u') (api_users d)\<rparr>,
           respond 200 (Auth_details (au_id u) fresh)))"

text \<open>\<open>getRoot\<close> of \<open>routes-root.js\<close>: the uris of the principal resources and the
  note on authentication.\<close>

definition getRoot :: api_response where
  "getRoot =
     respond 200
       (Resources [(''auth'', ''/auth''), (''members'', ''/members''), (''teams'', ''/teams'')]
          ''GET /auth to obtain {id, token}; subsequent requests require basic auth id:token''
          ''api'')"

text \<open>Modelled from the spec: the members handlers.\<close>

definition list_members :: "api_db \<Rightarrow> api_request \<Rightarrow> api_db \<times> api_response" where
  "list_members d rq =
     (let found = (case rq_firstname rq of
                     None \<Rightarrow> api_members d
                   | Some name \<Rightarrow> filter (\<lambda>(i, m). Firstname m = name) (api_members d))
      in if found = [] then (d, respond 204 No_content)
         else (d, respond 200 (Member_list found)))"

definition create_member :: "api_db \<Rightarrow> api_request \<Rightarrow> api_db \<times> api_response" where
  "create_member d rq =
     (let m = rq_values rq in
      if list_ex (\<lambda>(i, m'). member_Email m' = member_Email m) (api_members d)
      then (d, respond 409
                 (Message (''Duplicate entry '' @ [CHR 39] @ member_Email m @ [CHR 39] @
                           '' for key '' @ [CHR 39] @ ''Email'' @ [CHR 39])))
      else
        (let i = api_next_id d
         in (d\<lparr>api_members := api_members d @ [(i, m)], api_next_id := Suc i\<rparr>,
             \<lparr>rs_status = 201, rs_location = Some (''/members/'' @ nat_toString i),
              rs_body = One_member i m\<rparr>)))"

definition get_member :: "nat \<Rightarrow> api_db \<Rightarrow> api_db \<times> api_response" where
  "get_member i d =
     (case map_of (api_members d) i of
        None \<Rightarrow> (d, respond 404 (Message ''Not Found''))
      | Some m \<Rightarrow> (d, respond 200 (One_member i m)))"

definition update_member :: "nat \<Rightarrow> api_db \<Rightarrow> api_request \<Rightarrow> api_db \<times> api_response" where
  "update_member i d rq =
     (case map_of (api_members d) i of
        None \<Rightarrow> (d, respond 404 (Message ''Not Found''))
      | Some m \<Rightarrow>
          (d\<lparr>api_members := map (\<lambda>(j, m'). if j = i then (j, rq_values rq) else (j, m'))
                                (api_members d)\<rparr>,
           respond 200 (One_member i (rq_values rq))))"

definition delete_member :: "nat \<Rightarrow> api_db \<Rightarrow> api_db \<times> api_response" where
  "delete_member i d =
     (case map_of (api_members d) i of
        None \<Rightarrow> (d, respond 404 (Message ''Not Found''))
      | Some m \<Rightarrow>
          (d\<lparr>api_members := filter (\<lambda>(j, m'). j \<noteq> i) (api_members d)\<rparr>,
           respond 200 (One_member i m)))"

text \<open>Modelled from the spec: the app. Credentials are checked before the resource is
  looked at, so a request without valid credentials gets 401 whatever it asks for. (Where
  the router of the root resource sits is not in the sources; it is put behind the
  check like every other one.)\<close>

definition api :: "string \<Rightarrow> api_db \<Rightarrow> api_request \<Rightarrow> api_db \<times> api_response" where
  "api fresh d rq =
     (if route (rq_path rq) = Auth \<and> rq_method rq = GET then get_auth fresh d rq
      else if \<not> authenticated d (rq_auth rq) then (d, respond 401 (Message ''Unauthorized''))
      else (case (route (rq_path rq), rq_method rq) of
              (Root, GET) \<Rightarrow> (d, getRoot)
            | (Members, GET) \<Rightarrow> list_members d rq
            | (Members, POST) \<Rightarrow> create_member d rq
            | (Member_by_id i, GET) \<Rightarrow> get_member i d
            | (Member_by_id i, PATCH) \<Rightarrow> update_member i d rq
            | (Member_by_id i, DELETE) \<Rightarrow> delete_member i d
            | _ \<Rightarrow> (d, respond 404 (Message ''Not Found''))))"

text \<open>A sequence of requests, each on the database the previous one left; the token
  issued by the \<open>k\<close>-th request is \<open>tokens k\<close>.\<close>

fun run_requests ::
  "(nat \<Rightarrow> string) \<Rightarrow> nat \<Rightarrow> api_db \<Rightarrow> api_request list \<Rightarrow> api_response list" where
  "run_requests tokens k d [] = []"
| "run_requests tokens k d (rq # rqs) =
     (case api (tokens k) d rq of
        (d', rs) \<Rightarrow> rs # run_requests tokens (Suc k) d' rqs)"


section \<open>Concrete inputs\<close>

subsection \<open>A request to the ajax relay\<close>

definition lib0 :: "(unit, unit) libs" where
  "lib0 =
     \<lparr>Date_parse = (\<lambda>str. if str = ''2016-03-01T00:00:00.000Z'' then Some 1456790400000
                         else None),
      toISOString = (\<lambda>t. if t = 1456963200000 then ''2016-03-03T00:00:00.000Z'' else []),
      JSON_stringify = (\<lambda>b. Some ''{}''),
      sha1_hex = (\<lambda>str. ''da39a3ee5e6b4b0d3255bfef95601890afd80709''),
      fetch = (\<lambda>rq. Rejected ''getaddrinfo ENOTFOUND'')\<rparr>"

definition usr0 :: user where
  "usr0 = \<lparr>UserId = 7, Email = ''dev@user.com'',
           ApiToken = Some ''2016-03-01T00:00:00.000Z''\<rparr>"

definition st0 :: "(unit, unit) ajax_state" where
  "st0 =
     \<lparr>db = [7 \<mapsto> usr0],
      ctx = \<lparr>passport_user = usr0, captures0 = ''members/12'', host = ''admin.app.com'',
             protocol = ''http'', ctx_method = ''GET'',
             header_accept = Some ''application/json'', request_body = (),
             status = 404, body = NoBody\<rparr>,
      trace = []\<rparr>"

subsection \<open>Requests to the www app\<close>










subsection \<open>Mail in a development environment\<close>

definition mail_libs0 :: "unit mail_libs" where
  "mail_libs0 =
     \<lparr>render_template = (\<lambda>t c. ''<html><title>Reset</title>Hello</html>''),
      title_text = (\<lambda>html. Some ''Reset''),
      htmlToText = (\<lambda>html. ''Hello''),
      to_number = (\<lambda>str. if str = ''587'' then Some 587 else None)\<rparr>"

definition dev_ctx0 :: mail_ctx where
  "dev_ctx0 =
     \<lparr>ctx_app_env = ''development'', ctx_state_user = Some 7, global_it = False,
      SMTP_CONNECTION = Some ''host=smtp.mailhost.com; port=587''\<rparr>"

definition mail_state0 :: mail_state where
  "mail_state0 = \<lparr>transport = None, outbox = []\<rparr>"

subsection \<open>A log entry and a query of the log viewer\<close>




subsection \<open>Connection strings\<close>




subsection \<open>The requests of test/api.js\<close>

text \<open>The database the tests run on is not part of the sources: an administrator who
  may log in and two members, one of them with first name \<open>lewis\<close>.\<close>

definition api_db0 :: api_db where
  "api_db0 =
     \<lparr>api_users = [\<lparr>au_id = 100001, au_email = ''admin@user.com'', au_password = ''admin'',
                     au_token = None\<rparr>],
      api_members =
        [(100001, \<lparr>Firstname = ''lewis'', Lastname = ''hamilton'',
                   member_Email = ''lewis@hamilton.com'', Active = True\<rparr>),
         (100002, \<lparr>Firstname = ''juan'', Lastname = ''fangio'',
                   member_Email = ''juan@fangio.com'', Active = False\<rparr>)],
      api_next_id = 100003\<rparr>"

definition tokens0 :: "nat \<Rightarrow> string" where
  "tokens0 k = ''3f5c1a''"

definition no_values :: member where
  "no_values = \<lparr>Firstname = [], Lastname = [], member_Email = [], Active = False\<rparr>"

definition test_values :: member where
  "test_values = \<lparr>Firstname = ''Test'', Lastname = ''User'', member_Email = ''test@user.com'',
                  Active = True\<rparr>"

definition request :: "http_method \<Rightarrow> string \<Rightarrow> (string \<times> string) option \<Rightarrow> api_request" where
  "request m path cred =
     \<lparr>rq_method = m, rq_path = path, rq_firstname = None, rq_auth = cred,
      rq_values = no_values\<rparr>"

text \<open>The requests in the order of the file, with the id and token that the fourth
  one returns, and the id that the first \<open>POST\<close> returns.\<close>

definition api_tests :: "api_request list" where
  "api_tests =
     [request GET ''/auth'' None,
      request GET ''/auth'' (Some (''xxx@user.com'', ''admin'')),
      request GET ''/auth'' (Some (''admin@user.com'', ''bad-password'')),
      request GET ''/auth'' (Some (''admin@user.com'', ''admin'')),
      request GET ''/members'' (Some (''999999'', ''x'')),
      request GET ''/members'' (Some (''100001'', ''bad-password'')),
      request GET ''/members'' (Some (''100001'', ''3f5c1a'')),
      (request POST ''/members'' (Some (''100001'', ''3f5c1a'')))\<lparr>rq_values := test_values\<rparr>,
      request GET ''/members/100003'' (Some (''100001'', ''3f5c1a'')),
      (request GET ''/members'' (Some (''100001'', ''3f5c1a'')))\<lparr>rq_firstname := Some ''lewis''\<rparr>,
      (request GET ''/members'' (Some (''100001'', ''3f5c1a'')))\<lparr>rq_firstname := Some ''nomatch''\<rparr>,
      (request PATCH ''/members/100003'' (Some (''100001'', ''3f5c1a'')))
        \<lparr>rq_values := test_values\<lparr>Firstname := ''Updated''\<rparr>\<rparr>,
      (request POST ''/members'' (Some (''100001'', ''3f5c1a'')))\<lparr>rq_values := test_values\<rparr>,
      request DELETE ''/members/100003'' (Some (''100001'', ''3f5c1a'')),
      request GET ''/members/100003'' (Some (''100001'', ''3f5c1a'')),
      (request PATCH ''/members/100003'' (Some (''100001'', ''3f5c1a'')))
        \<lparr>rq_values := test_values\<lparr>Firstname := ''Updated''\<rparr>\<rparr>,
      request GET ''/zzzzzz'' None,
      request GET ''/zzzzzz'' (Some (''100001'', ''3f5c1a''))]"

text \<open>The database after the fourth request, after the first \<open>POST\<close>, after the
  \<open>PATCH\<close>, and after the \<open>DELETE\<close>.\<close>

definition api_db1 :: api_db where
  "api_db1 =
     api_db0\<lparr>api_users := [\<lparr>au_id = 100001, au_email = ''admin@user.com'',
                              au_password = ''admin'', au_token = Some ''3f5c1a''\<rparr>]\<rparr>"

definition api_db2 :: api_db where
  "api_db2 =
     api_db1\<lparr>api_members := api_members api_db1 @ [(100003, test_values)],
             api_next_id := 100004\<rparr>"

definition api_db3 :: api_db where
  "api_db3 =
     api_db1\<lparr>api_members := api_members api_db1 @
                               [(100003, test_values\<lparr>Firstname := ''Updated''\<rparr>)],
             api_next_id := 100004\<rparr>"

definition api_db4 :: api_db where
  "api_db4 = api_db1\<lparr>api_next_id := 100004\<rparr>"


section \<open>Properties of the ajax relay\<close>

lemma replace_first_absent:
  "\<not> contains_literal pat str \<Longrightarrow> replace_first pat rep str = str"
  by (induction str) auto

lemma replace_first_occurrence:
  assumes "pat \<noteq> []"
    and "\<forall>i < length pre. \<not> prefix pat (drop i (pre @ pat @ post))"
  shows "replace_first pat rep (pre @ pat @ post) = pre @ rep @ post"
  using assms
proof (induction pre)
  case Nil
  then show ?case by (cases pat) auto
next
  case (Cons ch pre)
  from Cons.prems(2) have "\<not> prefix pat (ch # pre @ pat @ post)"
    by (metis append_Cons drop0 length_greater_0_conv list.distinct(1))
  moreover from Cons.prems(2) have "\<forall>i < length pre. \<not> prefix pat (drop i (pre @ pat @ post))"
    by (metis Suc_less_eq append_Cons drop_Suc_Cons length_Cons)
  ultimately show ?case using Cons.IH Cons.prems(1) by simp
qed

lemma base64Encode_rfc4648_vectors:
  "base64Encode [] = []"
  "base64Encode ''f'' = ''Zg==''"
  "base64Encode ''fo'' = ''Zm8=''"
  "base64Encode ''foo'' = ''Zm9v''"
  "base64Encode ''foob'' = ''Zm9vYg==''"
  "base64Encode ''fooba'' = ''Zm9vYmE=''"
  "base64Encode ''foobar'' = ''Zm9vYmFy''"
  by (simp_all add: base64Encode_def b64_char_def b64_alphabet_def)

lemma length_b64_octets: "length (b64_octets xs) = 4 * ((length xs + 2) div 3)"
  by (induction xs rule: b64_octets.induct) (simp_all, presburger)

lemma getAjax_fetch_keeps [simp]:
  "passport_user (getAjax_fetch L rq c) = passport_user c"
  by (auto simp: getAjax_fetch_def split: fetch_outcome.splits option.splits sum.splits)

text \<open>
  Claim C1. The handler renews the api token before forwarding exactly when the stored
  \<open>ApiToken\<close> of the logged-in user is null or was issued more than 24 hours
  (86,400,000 ms) before the current time: then \<open>User.update\<close> is called with the
  current time as an ISO string, before the request is forwarded, and the user is read
  back into the session. Otherwise the database and the session user are left as they
  were. The handler completes whenever the user's row exists.
\<close>

theorem getAjax_token_renewal:
  "(db s (UserId (passport_user (ctx s))) \<noteq> None \<longrightarrow> (\<exists>s'. getAjax L now now' s = Inr s')) \<and>
   (\<forall>s'. getAjax L now now' s = Inr s' \<longrightarrow>
     (if ApiToken (passport_user (ctx s)) = None \<or>
         (\<exists>tok t. ApiToken (passport_user (ctx s)) = Some tok \<and> Date_parse L tok = Some t \<and>
                  now - t > 86400000)
      then db s' = User_update (UserId (passport_user (ctx s))) (toISOString L now') (db s) \<and>
           User_get (UserId (passport_user (ctx s))) (db s') = Some (passport_user (ctx s')) \<and>
           ApiToken (passport_user (ctx s')) = Some (toISOString L now') \<and>
           (\<exists>rq. trace s' = trace s @
              [DbUpdate (UserId (passport_user (ctx s))) (toISOString L now'), Fetch rq])
      else db s' = db s \<and> passport_user (ctx s') = passport_user (ctx s) \<and>
           (\<exists>rq. trace s' = trace s @ [Fetch rq])))"
  by (auto simp: getAjax_def getAjax_renew_def Let_def User_update_def User_get_def
      split: option.splits if_splits)

theorem getAjax_token_renewal_witness:
  "db st0 (UserId (passport_user (ctx st0))) \<noteq> None \<and>
   (\<exists>s'. getAjax lib0 1456963200000 1456963200000 st0 = Inr s' \<and>
      ApiToken (passport_user (ctx s')) = Some ''2016-03-03T00:00:00.000Z'') \<and>
   (\<exists>s'. getAjax lib0 1456790400001 1456963200000 st0 = Inr s' \<and> db s' = db st0)"
  using getAjax_token_renewal [of st0 lib0 1456963200000 1456963200000]
    getAjax_token_renewal [of st0 lib0 1456790400001 1456963200000]
  by (auto simp: st0_def usr0_def lib0_def)



text \<open>
  Claim C8. When the forwarded request fails (the \<open>fetch\<close> promise rejects), the relay
  does not throw: it completes with status 500 and the error's message as the body.
\<close>

theorem getAjax_fetch_rejected:
  "db s (UserId (passport_user (ctx s))) \<noteq> None \<Longrightarrow>
     \<exists>s' rq. getAjax L now now' s = Inr s' \<and> last (trace s') = Fetch rq \<and>
       (\<forall>msg. fetch L rq = Rejected msg \<longrightarrow>
          status (ctx s') = 500 \<and> body (ctx s') = TextBody msg)"
  by (auto simp: getAjax_def getAjax_renew_def getAjax_fetch_def Let_def User_update_def
      User_get_def split: option.splits if_splits)

theorem getAjax_fetch_rejected_witness:
  "db st0 (UserId (passport_user (ctx st0))) \<noteq> None \<and>
   (\<exists>s' rq. getAjax lib0 1456963200000 1456963200000 st0 = Inr s' \<and>
      last (trace s') = Fetch rq \<and> fetch lib0 rq = Rejected ''getaddrinfo ENOTFOUND'' \<and>
      status (ctx s') = 500 \<and> body (ctx s') = TextBody ''getaddrinfo ENOTFOUND'')"
  using getAjax_fetch_rejected [of st0 lib0 1456963200000 1456963200000]
  by (auto simp: st0_def usr0_def lib0_def)


section \<open>Properties of the www app\<close>

subsection \<open>trim\<close>

lemma trim_no_leading_ws: "trim str \<noteq> [] \<Longrightarrow> \<not> is_ws (hd (trim str))"
proof -
  assume ne: "trim str \<noteq> []"
  let ?d = "dropWhile is_ws str"
  have "trim str = rev (dropWhile is_ws (rev ?d))" by (simp add: trim_def)
  have "trim str = []" if e: "?d = []" unfolding trim_def e by simp
  with ne have dne: "?d \<noteq> []" by blast
  then have h: "\<not> is_ws (hd ?d)" by (simp add: hd_dropWhile)
  obtain l where l: "?d = trim str @ l"
    unfolding trim_def
    by (metis append_take_drop_id rev_append rev_rev_ident takeWhile_dropWhile_id)
  with ne have "hd ?d = hd (trim str)" by simp
  with h show ?thesis by simp
qed

lemma trim_no_trailing_ws: "trim str \<noteq> [] \<Longrightarrow> \<not> is_ws (last (trim str))"
  unfolding trim_def
  by (metis hd_dropWhile last_rev rev_is_Nil_conv rev_rev_ident)

lemma trim_decomposition:
  "\<exists>l r. str = l @ trim str @ r \<and> (\<forall>ch \<in> set l. is_ws ch) \<and> (\<forall>ch \<in> set r. is_ws ch)"
proof -
  let ?l = "takeWhile is_ws str"
  let ?d = "dropWhile is_ws str"
  let ?r = "rev (takeWhile is_ws (rev ?d))"
  have "?d = trim str @ ?r"
    unfolding trim_def
    by (metis rev_append rev_rev_ident takeWhile_dropWhile_id)
  then have "str = ?l @ trim str @ ?r" by (metis takeWhile_dropWhile_id)
  moreover have "\<forall>ch \<in> set ?l. is_ws ch" by (meson set_takeWhileD)
  moreover have "\<forall>ch \<in> set ?r. is_ws ch" by (metis set_rev set_takeWhileD)
  ultimately show ?thesis by blast
qed

lemma trim_idem_iff:
  "trim str = str \<longleftrightarrow> (str = [] \<or> (\<not> is_ws (hd str) \<and> \<not> is_ws (last str)))"
proof (cases "str = []")
  case True
  then show ?thesis by (simp add: trim_def)
next
  case False
  show ?thesis
  proof
    assume "trim str = str"
    then show "str = [] \<or> (\<not> is_ws (hd str) \<and> \<not> is_ws (last str))"
      using trim_no_leading_ws [of str] trim_no_trailing_ws [of str] False by simp
  next
    assume "str = [] \<or> (\<not> is_ws (hd str) \<and> \<not> is_ws (last str))"
    with False have h: "\<not> is_ws (hd str)" and l: "\<not> is_ws (last str)" by auto
    from h False have d: "dropWhile is_ws str = str" by (cases str) auto
    from l False have "\<not> is_ws (hd (rev str))" by (simp add: hd_rev)
    with False have "dropWhile is_ws (rev str) = rev str" by (cases "rev str") auto
    with d show "trim str = str" by (simp add: trim_def)
  qed
qed

subsection \<open>handleErrors\<close>




subsection \<open>The chain\<close>






subsection \<open>cleanPost\<close>




section \<open>Properties of the log viewers\<close>













section \<open>Properties of the mail functions\<close>

lemma sendMail_outbox:
  "sendMail toNumber c m s = Inr s' \<Longrightarrow> outbox s' = outbox s @ [m]"
  by (auto simp: sendMail_def Mail_transporter_def split: sum.splits option.splits)

lemma dispatch_not_production:
  assumes "ctx_app_env c \<noteq> ''production''"
    and "dispatch toNumber users c to m s = Inr s'"
  shows "(ctx_state_user c = None \<longrightarrow> s' = s) \<and>
         (\<forall>uid. ctx_state_user c = Some uid \<longrightarrow>
            (\<exists>u. User_get uid users = Some u \<and>
                 outbox s' = outbox s @ [m\<lparr>msg_to := Email u, msg_headers := [(''X-Orig-To'', to)]\<rparr>]))"
  using assms
  by (auto simp: dispatch_def split: if_splits option.splits dest: sendMail_outbox)

lemma dispatch_sends:
  assumes "ctx_app_env c \<noteq> ''production''" and "ctx_state_user c = Some uid"
    and "User_get uid users = Some u"
    and "transport s \<noteq> None \<or> (\<exists>config. smtpConfig toNumber (SMTP_CONNECTION c) = Inr config)"
  shows "\<exists>s'. dispatch toNumber users c to m s = Inr s'"
  using assms
  by (auto simp: dispatch_def sendMail_def Mail_transporter_def split: option.splits)

text \<open>
  Claim C10. Outside production, \<open>Mail.send\<close>, \<open>Mail.sendHtml\<close> and \<open>Mail.sendText\<close>
  send nothing when no user is logged in; when a user is logged in, the one message
  sent goes to the logged-in user's \<open>Email\<close> and names the original recipient in an
  \<open>X-Orig-To\<close> header; and under the test framework (\<open>global.it\<close> set) nothing is sent
  in any environment.
\<close>

theorem Mail_not_production:
  assumes "f = Mail_send L users to template context \<or>
           f = Mail_sendHtml L users to subject html \<or>
           f = Mail_sendText L users to subject text"
  shows "(global_it c \<longrightarrow> f c s = Inr s) \<and>
         (ctx_app_env c \<noteq> ''production'' \<longrightarrow>
            (\<forall>s'. f c s = Inr s' \<longrightarrow>
               (ctx_state_user c = None \<longrightarrow> outbox s' = outbox s) \<and>
               (\<forall>uid. ctx_state_user c = Some uid \<and> \<not> global_it c \<longrightarrow>
                  (\<exists>u m. User_get uid users = Some u \<and> outbox s' = outbox s @ [m] \<and>
                     msg_to m = Email u \<and> msg_headers m = [(''X-Orig-To'', to)]))) \<and>
            (\<forall>uid u. ctx_state_user c = Some uid \<and> \<not> global_it c \<and>
                User_get uid users = Some u \<and>
                (transport s \<noteq> None \<or>
                 (\<exists>config. smtpConfig (to_number L) (SMTP_CONNECTION c) = Inr config)) \<and>
                title_text L (render_template L template context) \<noteq> None \<longrightarrow>
                (\<exists>s'. f c s = Inr s')))"
proof (intro conjI impI)
  assume "global_it c"
  with assms show "f c s = Inr s"
    by (auto simp: Mail_send_def Mail_sendHtml_def Mail_sendText_def)
next
  assume np: "ctx_app_env c \<noteq> ''production''"
  show "\<forall>s'. f c s = Inr s' \<longrightarrow>
               (ctx_state_user c = None \<longrightarrow> outbox s' = outbox s) \<and>
               (\<forall>uid. ctx_state_user c = Some uid \<and> \<not> global_it c \<longrightarrow>
                  (\<exists>u m. User_get uid users = Some u \<and> outbox s' = outbox s @ [m] \<and>
                     msg_to m = Email u \<and> msg_headers m = [(''X-Orig-To'', to)]))"
  proof (intro allI impI)
    fix s' assume r: "f c s = Inr s'"
    show "(ctx_state_user c = None \<longrightarrow> outbox s' = outbox s) \<and>
               (\<forall>uid. ctx_state_user c = Some uid \<and> \<not> global_it c \<longrightarrow>
                  (\<exists>u m. User_get uid users = Some u \<and> outbox s' = outbox s @ [m] \<and>
                     msg_to m = Email u \<and> msg_headers m = [(''X-Orig-To'', to)]))"
    proof (cases "global_it c")
      case True
      with assms r have "s' = s"
        by (auto simp: Mail_send_def Mail_sendHtml_def Mail_sendText_def)
      with True show ?thesis by simp
    next
      case False
      with assms r obtain m where "dispatch (to_number L) users c to m s = Inr s'"
        by (auto simp: Mail_send_def Mail_sendHtml_def Mail_sendText_def Let_def
            split: option.splits)
      from dispatch_not_production [OF np this] show ?thesis by auto
    qed
  qed
next
  assume np: "ctx_app_env c \<noteq> ''production''"
  show "\<forall>uid u. ctx_state_user c = Some uid \<and> \<not> global_it c \<and>
                User_get uid users = Some u \<and>
                (transport s \<noteq> None \<or>
                 (\<exists>config. smtpConfig (to_number L) (SMTP_CONNECTION c) = Inr config)) \<and>
                title_text L (render_template L template context) \<noteq> None \<longrightarrow>
                (\<exists>s'. f c s = Inr s')"
    using assms dispatch_sends [OF np]
    by (auto simp: Mail_send_def Mail_sendHtml_def Mail_sendText_def Let_def)
qed

theorem Mail_not_production_witness:
  "ctx_app_env dev_ctx0 \<noteq> ''production'' \<and>
   ctx_state_user dev_ctx0 = Some 7 \<and> \<not> global_it dev_ctx0 \<and>
   User_get 7 [7 \<mapsto> usr0] = Some usr0 \<and>
   Mail_sendText mail_libs0 [7 \<mapsto> usr0] ''ann@example.com'' ''Hi'' ''Hello'' dev_ctx0 mail_state0 =
     Inr \<lparr>transport = Some [(''host'', JStr ''smtp.mailhost.com''), (''port'', JStr ''587''),
                            (''secure'', JBool False)],
          outbox = [\<lparr>msg_to = ''dev@user.com'', msg_from = ''noreply@movable-type.co.uk'',
                     msg_subject = ''Hi'', msg_html = None, msg_text = ''Hello'',
                     msg_headers = [(''X-Orig-To'', ''ann@example.com'')]\<rparr>]\<rparr> \<and>
   Mail_sendText mail_libs0 [7 \<mapsto> usr0] ''ann@example.com'' ''Hi'' ''Hello''
     (dev_ctx0\<lparr>ctx_state_user := None\<rparr>) mail_state0 = Inr mail_state0 \<and>
   Mail_sendText mail_libs0 [7 \<mapsto> usr0] ''ann@example.com'' ''Hi'' ''Hello''
     (dev_ctx0\<lparr>global_it := True\<rparr>) mail_state0 = Inr mail_state0"
  using Mail_not_production [of "Mail_sendText mail_libs0 [7 \<mapsto> usr0] ''ann@example.com'' ''Hi'' ''Hello''"
      mail_libs0 "[7 \<mapsto> usr0]" "''ann@example.com''" _ _ "''Hi''" _ "''Hello''" dev_ctx0 mail_state0]
  by (simp add: dev_ctx0_def mail_state0_def mail_libs0_def usr0_def User_get_def
      Mail_sendText_def dispatch_def sendMail_def Mail_transporter_def smtpConfig_def
      smtp_step_def trim_def is_ws_def obj_set_def obj_get_def has_key_def set_key_def
      truthy_val_def loose_eq_num_def Mail_from_def Let_def)


section \<open>Properties of the mail transporter\<close>

subsection \<open>split and join\<close>

lemma split_on_absent: "sep \<notin> set str \<Longrightarrow> split_on sep str = [str]"
  by (induction str) auto

lemma split_on_first:
  "sep \<notin> set pre \<Longrightarrow> split_on sep (pre @ sep # post) = pre # split_on sep post"
  by (induction pre) auto


lemma split_on_pair:
  "sep \<notin> set k \<Longrightarrow> sep \<notin> set v \<Longrightarrow> split_on sep (k @ sep # v) = [k, v]"
  by (simp add: split_on_first split_on_absent)

subsection \<open>Objects\<close>

lemma set_key_simps [simp]:
  "set_key k v [] = []"
  "set_key k v ((k', v') # kvs) = (if k' = k then (k', v) else (k', v')) # set_key k v kvs"
  by (simp_all add: set_key_def)

lemma has_key_simps [simp]:
  "has_key k [] = False"
  "has_key k ((k', v') # kvs) = (k' = k \<or> has_key k kvs)"
  by (auto simp: has_key_def)


lemma map_fst_set_key: "map fst (set_key k v kvs) = map fst kvs"
  by (induction kvs) auto

lemma has_key_set_key [simp]: "has_key k' (set_key k v kvs) = has_key k' kvs"
  by (simp add: has_key_def map_fst_set_key)


lemma set_key_set_key [simp]: "set_key k v (set_key k v' kvs) = set_key k v kvs"
  by (induction kvs) auto






subsection \<open>One pair\<close>

lemma split_on_render_key:
  "wf_key key \<Longrightarrow>
     split_on CHR ''.'' (render_key key) =
       (case key of Undotted k \<Rightarrow> [k] | Dotted a b \<Rightarrow> [a, b])"
  by (cases key) (simp_all add: split_on_absent split_on_pair)



subsection \<open>All pairs\<close>








section \<open>Properties of the api model\<close>

lemma routes:
  "route ''/auth'' = Auth"
  "route ''/members'' = Members"
  "route ''/members/100003'' = Member_by_id 100003"
  "route ''/zzzzzz'' = No_such_resource"
  by (simp_all add: route_def)

lemma digit_chars:
  "digit_char 0 = CHR ''0''" "digit_char 1 = CHR ''1''" "digit_char 2 = CHR ''2''"
  "digit_char 3 = CHR ''3''" "digit_char 4 = CHR ''4''" "digit_char 5 = CHR ''5''"
  "digit_char 6 = CHR ''6''" "digit_char 7 = CHR ''7''" "digit_char 8 = CHR ''8''"
  "digit_char 9 = CHR ''9''" "digit_char (Suc 0) = CHR ''1''"
  by code_simp+

lemma ids:
  "nat_toString 100001 = ''100001''"
  "nat_toString 100003 = ''100003''"
  by (simp_all add: nat_toString.simps digit_chars)

lemma run_requests_status:
  "map rs_status (run_requests tokens k d (rq # rqs)) =
     rs_status (snd (api (tokens k) d rq)) #
     map rs_status (run_requests tokens (Suc k) (fst (api (tokens k) d rq)) rqs)"
  by (simp split: prod.splits)

lemma step_auth:
  "api t api_db0 (request GET ''/auth'' None) = (api_db0, respond 401 (Message ''Unauthorized''))"
  "api t api_db0 (request GET ''/auth'' (Some (''xxx@user.com'', ''admin'')))
     = (api_db0, respond 401 (Message ''Unauthorized''))"
  "api t api_db0 (request GET ''/auth'' (Some (''admin@user.com'', ''bad-password'')))
     = (api_db0, respond 401 (Message ''Unauthorized''))"
  "api ''3f5c1a'' api_db0 (request GET ''/auth'' (Some (''admin@user.com'', ''admin'')))
     = (api_db1, respond 200 (Auth_details 100001 ''3f5c1a''))"
  by (simp_all add: api_def request_def routes get_auth_def login_def api_db0_def api_db1_def)

lemma step_auth_checks:
  "api t api_db1 (request GET ''/members'' (Some (''999999'', ''x'')))
     = (api_db1, respond 401 (Message ''Unauthorized''))"
  "api t api_db1 (request GET ''/members'' (Some (''100001'', ''bad-password'')))
     = (api_db1, respond 401 (Message ''Unauthorized''))"
  "api t api_db1 (request GET ''/members'' (Some (''100001'', ''3f5c1a'')))
     = (api_db1, respond 200 (Member_list (api_members api_db1)))"
  by (simp_all add: api_def request_def routes authenticated_def ids list_members_def Let_def
      api_db0_def api_db1_def)

lemma auth1: "authenticated api_db1 (Some (''100001'', ''3f5c1a''))"
  by (simp add: authenticated_def ids api_db1_def api_db0_def)

lemma auth_later:
  "authenticated api_db2 (Some (''100001'', ''3f5c1a''))"
  "authenticated api_db3 (Some (''100001'', ''3f5c1a''))"
  "authenticated api_db4 (Some (''100001'', ''3f5c1a''))"
  using auth1 by (simp_all add: authenticated_def api_db2_def api_db3_def api_db4_def)

lemma step_create:
  "api t api_db1 ((request POST ''/members'' (Some (''100001'', ''3f5c1a'')))\<lparr>rq_values := test_values\<rparr>)
     = (api_db2, \<lparr>rs_status = 201, rs_location = Some ''/members/100003'',
                  rs_body = One_member 100003 test_values\<rparr>)"
  using auth1
  by (simp add: api_def request_def routes create_member_def ids Let_def
      api_db0_def api_db1_def api_db2_def test_values_def)

lemma step_read:
  "rs_status (snd (api t api_db2 (request GET ''/members/100003'' (Some (''100001'', ''3f5c1a''))))) = 200"
  "fst (api t api_db2 (request GET ''/members/100003'' (Some (''100001'', ''3f5c1a'')))) = api_db2"
  "rs_status (snd (api t api_db2
     ((request GET ''/members'' (Some (''100001'', ''3f5c1a'')))\<lparr>rq_firstname := Some ''lewis''\<rparr>))) = 200"
  "fst (api t api_db2
     ((request GET ''/members'' (Some (''100001'', ''3f5c1a'')))\<lparr>rq_firstname := Some ''lewis''\<rparr>)) = api_db2"
  "api t api_db2
     ((request GET ''/members'' (Some (''100001'', ''3f5c1a'')))\<lparr>rq_firstname := Some ''nomatch''\<rparr>)
     = (api_db2, respond 204 No_content)"
  using auth_later(1)
  by (simp_all add: api_def request_def routes get_member_def list_members_def respond_def Let_def
      api_db0_def api_db1_def api_db2_def test_values_def)

lemma step_update:
  "rs_status (snd (api t api_db2
     ((request PATCH ''/members/100003'' (Some (''100001'', ''3f5c1a'')))
        \<lparr>rq_values := test_values\<lparr>Firstname := ''Updated''\<rparr>\<rparr>))) = 200"
  "fst (api t api_db2
     ((request PATCH ''/members/100003'' (Some (''100001'', ''3f5c1a'')))
        \<lparr>rq_values := test_values\<lparr>Firstname := ''Updated''\<rparr>\<rparr>)) = api_db3"
  using auth_later(1)
  by (simp_all add: api_def request_def routes update_member_def respond_def
      api_db0_def api_db1_def api_db2_def api_db3_def test_values_def)

lemma step_duplicate:
  "api t api_db3 ((request POST ''/members'' (Some (''100001'', ''3f5c1a'')))\<lparr>rq_values := test_values\<rparr>)
     = (api_db3, respond 409 (Message (''Duplicate entry '' @ [CHR 39] @ ''test@user.com'' @
          [CHR 39] @ '' for key '' @ [CHR 39] @ ''Email'' @ [CHR 39])))"
  using auth_later(2)
  by (simp add: api_def request_def routes create_member_def Let_def
      api_db0_def api_db1_def api_db3_def test_values_def)

lemma step_delete:
  "rs_status (snd (api t api_db3 (request DELETE ''/members/100003'' (Some (''100001'', ''3f5c1a''))))) = 200"
  "fst (api t api_db3 (request DELETE ''/members/100003'' (Some (''100001'', ''3f5c1a'')))) = api_db4"
  using auth_later(2)
  by (simp_all add: api_def request_def routes delete_member_def respond_def
      api_db0_def api_db1_def api_db3_def api_db4_def test_values_def)

lemma step_gone:
  "api t api_db4 (request GET ''/members/100003'' (Some (''100001'', ''3f5c1a'')))
     = (api_db4, respond 404 (Message ''Not Found''))"
  "api t api_db4 ((request PATCH ''/members/100003'' (Some (''100001'', ''3f5c1a'')))
        \<lparr>rq_values := test_values\<lparr>Firstname := ''Updated''\<rparr>\<rparr>)
     = (api_db4, respond 404 (Message ''Not Found''))"
  "api t api_db4 (request GET ''/zzzzzz'' None) = (api_db4, respond 401 (Message ''Unauthorized''))"
  "api t api_db4 (request GET ''/zzzzzz'' (Some (''100001'', ''3f5c1a'')))
     = (api_db4, respond 404 (Message ''Not Found''))"
  using auth_later(3)
  by (simp_all add: api_def request_def routes get_member_def update_member_def authenticated_def
      api_db0_def api_db1_def api_db4_def)

text \<open>The model answers the requests of \<open>test/api.js\<close>, in the order of the file
  (the xml variant of the read apart, which differs in the \<open>Accept\<close> header only), with
  the status codes the tests expect.\<close>

lemma api_tests_replay:
  "map rs_status (run_requests tokens0 0 api_db0 api_tests) =
     [401, 401, 401, 200, 401, 401, 200, 201, 200, 200, 204, 200, 409, 200, 404, 404, 401, 404]"
  unfolding api_tests_def
  by (simp only: run_requests_status tokens0_def step_auth step_auth_checks step_create step_read
      step_update step_duplicate step_delete step_gone fst_conv snd_conv respond_def
      api_response.simps run_requests.simps(1) list.map)




end
